theory Spec2Isabelle
  imports Complex_Main "HOL-Library.Multiset" "HOL-Library.Char_ord" "HOL-Library.List_Lexorder"
begin

section \<open>Data model\<close>

text \<open>
  A date is the number of days since 1970-01-01 (a Thursday), so that the index of a
  frame compares as the timestamps do. A frame is the list of its rows in index order;
  of the columns only \<open>Close\<close> is read by the pipeline, and a cell that pandas shows
  as NaN is \<open>None\<close>. The frame without rows, \<open>pd.DataFrame()\<close>, is \<open>[]\<close>, and
  \<open>df.empty\<close> is \<open>df = []\<close>.
\<close>

record row =
  Date :: int
  Close :: "rat option"

text \<open>The frame of \<open>main_st_good.py\<close> after \<open>df['Symbol'] = symbol\<close>.\<close>

record trow = row +
  Symbol :: string

text \<open>
  What \<open>yf.Ticker(symbol).history(period="max")\<close> does: it raises (the text of the
  exception is kept), or it returns the daily frame.
\<close>

datatype history_result = Raised string | Returned "row list"

text \<open>The pandas offset aliases used by the two programs.\<close>

datatype freq = W | M | Q | Y

section \<open>Calendar\<close>

text \<open>
  The proleptic Gregorian calendar of the timestamps, on day numbers: the civil date
  (year, month, day) of a day number, and the day number of a civil date.
\<close>

definition civil_from_days :: "int \<Rightarrow> int \<times> int \<times> int" where
  "civil_from_days z =
     (let z' = z + 719468;
          era = z' div 146097;
          doe = z' - era * 146097;
          yoe = (doe - doe div 1460 + doe div 36524 - doe div 146096) div 365;
          doy = doe - (365 * yoe + yoe div 4 - yoe div 100);
          mp = (5 * doy + 2) div 153;
          d = doy - (153 * mp + 2) div 5 + 1;
          m = (if mp < 10 then mp + 3 else mp - 9);
          y = yoe + era * 400 + (if m \<le> 2 then 1 else 0)
      in (y, m, d))"

definition days_from_civil :: "int \<Rightarrow> int \<Rightarrow> int \<Rightarrow> int" where
  "days_from_civil y m d =
     (let y' = (if m \<le> 2 then y - 1 else y);
          era = y' div 400;
          yoe = y' - era * 400;
          doy = (153 * (if m > 2 then m - 3 else m + 9) + 2) div 5 + d - 1;
          doe = yoe * 365 + yoe div 4 - yoe div 100 + doy
      in era * 146097 + doe - 719468)"

definition year_of :: "int \<Rightarrow> int" where
  "year_of z = fst (civil_from_days z)"

definition month_of :: "int \<Rightarrow> int" where
  "month_of z = fst (snd (civil_from_days z))"

text \<open>The last day of month \<open>m\<close> of year \<open>y\<close>: the day before the first of the next month.\<close>

definition month_end :: "int \<Rightarrow> int \<Rightarrow> int" where
  "month_end y m = (if m = 12 then days_from_civil (y + 1) 1 1 else days_from_civil y (m + 1) 1) - 1"

text \<open>
  The label of the bin a date falls in. \<open>resample\<close> with \<open>'W'\<close> (weeks ending on
  Sunday), \<open>'M'\<close>, \<open>'Q'\<close> and \<open>'Y'\<close> closes each bin on the right and labels it with
  its last day: the Sunday on or after the date (day 3, 1970-01-04, is a Sunday), the
  last day of its month, of its calendar quarter, of its year.
\<close>

fun bin_label :: "freq \<Rightarrow> int \<Rightarrow> int" where
  "bin_label W d = d + (3 - d) mod 7"
| "bin_label M d = month_end (year_of d) (month_of d)"
| "bin_label Q d = month_end (year_of d) (3 * ((month_of d - 1) div 3 + 1))"
| "bin_label Y d = month_end (year_of d) 12"

section \<open>Resampling\<close>

text \<open>
  \<open>GroupBy.last\<close>: the last value of the group that is not NaN, NaN when there is
  none (also for a group without rows).
\<close>

definition last_valid :: "rat option list \<Rightarrow> rat option" where
  "last_valid vs = (case filter (\<lambda>v. v \<noteq> None) vs of [] \<Rightarrow> None | w # ws \<Rightarrow> last (w # ws))"

text \<open>
  \<open>df['Close'].resample(f).last().to_frame()\<close>. The time grouper sorts the rows by
  date (a stable sort), lays out every bin from the one of the first date to the one of
  the last date, populated or not, and \<open>last\<close> gives each bin one row: its label
  and the last valid close of the rows that fall in it.
\<close>

definition bin_labels :: "freq \<Rightarrow> int \<Rightarrow> int \<Rightarrow> int list" where
  "bin_labels f lo hi = filter (\<lambda>d. bin_label f d = d) [bin_label f lo .. bin_label f hi]"

definition resample_last :: "freq \<Rightarrow> ('a row_scheme) list \<Rightarrow> row list" where
  "resample_last f df =
     (case sort_key Date df of
        [] \<Rightarrow> []
      | r # rs \<Rightarrow>
          map (\<lambda>l. \<lparr>Date = l,
                    Close = last_valid (map Close (filter (\<lambda>x. bin_label f (Date x) = l) (r # rs)))\<rparr>)
              (bin_labels f (Date r) (Date (last (r # rs)))))"

section \<open>The desktop program: \<open>main.py\<close>\<close>

text \<open>The message boxes \<open>QMessageBox.warning\<close> and \<open>QMessageBox.critical\<close>: title and text.\<close>

datatype dialog = QWarning string string | QCritical string string

text \<open>
  The body of the \<open>try\<close> block: \<open>Inl\<close> is the exception that leaves it, \<open>Inr\<close> the
  dialogs shown and the frame returned.
\<close>

definition try_fetch_qt ::
  "(string \<Rightarrow> history_result) \<Rightarrow> string \<Rightarrow> int \<Rightarrow> string \<Rightarrow> string + (dialog list \<times> row list)" where
  "try_fetch_qt history symbol start_date interval =
     (case history symbol of
        Raised e \<Rightarrow> Inl e
      | Returned df \<Rightarrow>
          if df = [] then
            Inr ([QWarning ''Data Error''
                    (''No data found for '' @ symbol @ ''. Please check the symbol or date range.'')], [])
          else
            let df = filter (\<lambda>r. start_date \<le> Date r) df in
            if df = [] then Inr ([], [])
            else Inr ([],
              if interval = ''Day'' then df
              else if interval = ''Week'' then resample_last W df
              else if interval = ''Month'' then resample_last M df
              else if interval = ''Quarter'' then resample_last Q df
              else if interval = ''Year'' then resample_last Y df
              else df))"

definition fetch_and_resample_data_qt ::
  "(string \<Rightarrow> history_result) \<Rightarrow> string \<Rightarrow> int \<Rightarrow> string \<Rightarrow> dialog list \<times> row list" where
  "fetch_and_resample_data_qt history symbol start_date interval =
     (case try_fetch_qt history symbol start_date interval of
        Inr res \<Rightarrow> res
      | Inl e \<Rightarrow>
          ([QCritical ''Error''
              (''An error occurred while fetching '' @ symbol @ '' data: '' @ e @ [CHR 0x0A] @
               ''Please check your internet connection or try again later.'')], []))"

section \<open>The web program: \<open>main_st_good.py\<close>\<close>

text \<open>The page elements \<open>st.warning\<close> and \<open>st.error\<close>, with their text.\<close>

datatype element = st_warning string | st_error string

text \<open>
  \<open>start_date[:4]\<close>: the caller passes the text \<open>f"{start_year}-01-01"\<close>, whose first
  four characters are the digits of the year.
\<close>

definition year_text :: "int \<Rightarrow> string" where
  "year_text d = map (\<lambda>k. char_of (48 + (year_of d div 10 ^ k) mod 10)) [3, 2, 1, 0 :: nat]"

definition add_symbol :: "string \<Rightarrow> row list \<Rightarrow> trow list" where
  "add_symbol symbol df = map (\<lambda>r. \<lparr>Date = Date r, Close = Close r, Symbol = symbol\<rparr>) df"

definition try_fetch_st ::
  "(string \<Rightarrow> history_result) \<Rightarrow> string \<Rightarrow> int \<Rightarrow> string \<Rightarrow> string + (element list \<times> trow list)" where
  "try_fetch_st history symbol start_date interval_name =
     (case history symbol of
        Raised e \<Rightarrow> Inl e
      | Returned df \<Rightarrow>
          if df = [] then
            Inr ([st_warning (''No historical data found for '' @ symbol @ ''.'')], [])
          else
            let df = filter (\<lambda>r. start_date \<le> Date r) df in
            if df = [] then
              Inr ([st_warning (''No data found for '' @ symbol @ '' from '' @ year_text start_date @
                                '' onwards. Try an earlier year.'')], [])
            else Inr ([], add_symbol symbol
              (if interval_name = ''Day'' then df
               else if interval_name = ''Week'' then resample_last W df
               else if interval_name = ''Month'' then resample_last M df
               else if interval_name = ''Quarter'' then resample_last Q df
               else if interval_name = ''Year'' then resample_last Y df
               else df)))"

definition fetch_and_resample_data_st ::
  "(string \<Rightarrow> history_result) \<Rightarrow> string \<Rightarrow> int \<Rightarrow> string \<Rightarrow> element list \<times> trow list" where
  "fetch_and_resample_data_st history symbol start_date interval_name =
     (case try_fetch_st history symbol start_date interval_name of
        Inr res \<Rightarrow> res
      | Inl e \<Rightarrow>
          ([st_error (''An error occurred while fetching '' @ symbol @ '' data: '' @ e @ [CHR 0x0A] @
                      ''Please check your internet connection or try again later.'')], []))"



subsection \<open>The script: combining the three symbols\<close>

text \<open>
  \<open>if not df.empty: combined_df = pd.concat([combined_df, df])\<close>, for the three
  symbols in the order of the script.
\<close>

definition concat_if_not_empty :: "trow list \<Rightarrow> trow list \<Rightarrow> trow list" where
  "concat_if_not_empty combined df = (if df \<noteq> [] then combined @ df else combined)"

definition combine :: "trow list \<Rightarrow> trow list \<Rightarrow> trow list \<Rightarrow> trow list" where
  "combine df_googl df_nvda df_tsla =
     concat_if_not_empty (concat_if_not_empty (concat_if_not_empty [] df_googl) df_nvda) df_tsla"

text \<open>
  \<open>combined_df[(combined_df.index >= start_date_str) & (combined_df.index <= end_date_str)]\<close>,
  applied when the combined frame is not empty.
\<close>

definition filter_by_end_date :: "int \<Rightarrow> int \<Rightarrow> trow list \<Rightarrow> trow list" where
  "filter_by_end_date start_date end_date combined =
     (if combined \<noteq> [] then filter (\<lambda>r. start_date \<le> Date r \<and> Date r \<le> end_date) combined
      else combined)"

text \<open>
  The combined frame of the script, from the year range and the interval chosen in the
  sidebar: \<open>start_date_str\<close> is January 1 of the first year, \<open>end_date_str\<close>
  December 31 of the last.
\<close>

definition combined_df :: "(string \<Rightarrow> history_result) \<Rightarrow> int \<Rightarrow> int \<Rightarrow> string \<Rightarrow> trow list" where
  "combined_df history start_year end_year selected_interval_name =
     (let start_date_str = days_from_civil start_year 1 1;
          end_date_str = days_from_civil end_year 12 31;
          df_googl = snd (fetch_and_resample_data_st history ''GOOGL'' start_date_str selected_interval_name);
          df_nvda = snd (fetch_and_resample_data_st history ''NVDA'' start_date_str selected_interval_name);
          df_tsla = snd (fetch_and_resample_data_st history ''TSLA'' start_date_str selected_interval_name)
      in filter_by_end_date start_date_str end_date_str (combine df_googl df_nvda df_tsla))"

subsection \<open>The script: the 200-day moving average\<close>

text \<open>
  \<open>rolling(window=w).mean()\<close>: the window of position \<open>i\<close> holds the values at the
  positions \<open>i - w + 1\<close> to \<open>i\<close> that exist; the result is the mean of the values
  that are not NaN when there are at least \<open>w\<close> of them (\<open>min_periods\<close> is the size
  of the window), NaN otherwise. Prices are rationals here, and the mean is exact.
\<close>

definition rolling_mean :: "nat \<Rightarrow> rat option list \<Rightarrow> rat option list" where
  "rolling_mean w xs =
     map (\<lambda>i. let obs = map the (filter (\<lambda>v. v \<noteq> None) (drop (Suc i - w) (take (Suc i) xs)))
               in if w \<le> length obs then Some (sum_list obs / of_nat (length obs)) else None)
         [0 ..< length xs]"





section \<open>Price sources for the examples\<close>

text \<open>A price source that knows no symbol: it returns the frame without rows.\<close>

definition no_history :: "string \<Rightarrow> history_result" where
  "no_history symbol = Returned []"

section \<open>What the specification asks for\<close>

text \<open>
  The specification's fetch with an end date: filter the daily rows to the range, then
  resample. It is stated here to be compared with what the script computes.
\<close>

definition spec_fetch_range :: "freq \<Rightarrow> int \<Rightarrow> int \<Rightarrow> row list \<Rightarrow> row list" where
  "spec_fetch_range f start_date end_date df =
     resample_last f (filter (\<lambda>r. start_date \<le> Date r \<and> Date r \<le> end_date) df)"

text \<open>The specification's order of the combined points: by date, then by symbol.\<close>

definition sorted_by_date_then_symbol :: "trow list \<Rightarrow> bool" where
  "sorted_by_date_then_symbol df =
     sorted_wrt (\<lambda>a b. Date a < Date b \<or> (Date a = Date b \<and> Symbol a \<le> Symbol b)) df"

section \<open>Failure paths\<close>

lemma try_fetch_qt_raised:
  "history symbol = Raised e \<Longrightarrow> try_fetch_qt history symbol start_date interval = Inl e"
  by (simp add: try_fetch_qt_def)

lemma try_fetch_st_raised:
  "history symbol = Raised e \<Longrightarrow> try_fetch_st history symbol start_date interval = Inl e"
  by (simp add: try_fetch_st_def)

lemma try_fetch_qt_returned:
  "history symbol = Returned df \<Longrightarrow> \<exists>res. try_fetch_qt history symbol start_date interval = Inr res"
  by (simp add: try_fetch_qt_def Let_def)

lemma try_fetch_st_returned:
  "history symbol = Returned df \<Longrightarrow> \<exists>res. try_fetch_st history symbol start_date interval = Inr res"
  by (simp add: try_fetch_st_def Let_def)

lemma fetch_qt_no_rows:
  "history symbol = Returned [] \<Longrightarrow>
   fetch_and_resample_data_qt history symbol start_date interval =
     ([QWarning ''Data Error''
         (''No data found for '' @ symbol @ ''. Please check the symbol or date range.'')], [])"
  by (simp add: fetch_and_resample_data_qt_def try_fetch_qt_def)

lemma fetch_st_no_rows:
  "history symbol = Returned [] \<Longrightarrow>
   fetch_and_resample_data_st history symbol start_date interval =
     ([st_warning (''No historical data found for '' @ symbol @ ''.'')], [])"
  by (simp add: fetch_and_resample_data_st_def try_fetch_st_def)

lemma fetch_qt_none_in_range:
  "history symbol = Returned df \<Longrightarrow> df \<noteq> [] \<Longrightarrow> filter (\<lambda>r. start_date \<le> Date r) df = [] \<Longrightarrow>
   fetch_and_resample_data_qt history symbol start_date interval = ([], [])"
  by (simp add: fetch_and_resample_data_qt_def try_fetch_qt_def)

lemma fetch_st_none_in_range:
  "history symbol = Returned df \<Longrightarrow> df \<noteq> [] \<Longrightarrow> filter (\<lambda>r. start_date \<le> Date r) df = [] \<Longrightarrow>
   fetch_and_resample_data_st history symbol start_date interval =
     ([st_warning (''No data found for '' @ symbol @ '' from '' @ year_text start_date @
                   '' onwards. Try an earlier year.'')], [])"
  by (simp add: fetch_and_resample_data_st_def try_fetch_st_def)

lemma fetch_qt_raised:
  "history symbol = Raised e \<Longrightarrow>
   fetch_and_resample_data_qt history symbol start_date interval =
     ([QCritical ''Error''
         (''An error occurred while fetching '' @ symbol @ '' data: '' @ e @ [CHR 0x0A] @
          ''Please check your internet connection or try again later.'')], [])"
  by (simp add: fetch_and_resample_data_qt_def try_fetch_qt_raised)

lemma fetch_st_raised:
  "history symbol = Raised e \<Longrightarrow>
   fetch_and_resample_data_st history symbol start_date interval =
     ([st_error (''An error occurred while fetching '' @ symbol @ '' data: '' @ e @ [CHR 0x0A] @
                 ''Please check your internet connection or try again later.'')], [])"
  by (simp add: fetch_and_resample_data_st_def try_fetch_st_raised)

lemma fetch_qt_messages_returned:
  "history symbol = Returned df \<Longrightarrow>
   fst (fetch_and_resample_data_qt history symbol start_date interval) = [] \<or>
   (\<exists>t. fst (fetch_and_resample_data_qt history symbol start_date interval) = [QWarning ''Data Error'' t])"
  by (simp add: fetch_and_resample_data_qt_def try_fetch_qt_def Let_def)

lemma fetch_st_messages_returned:
  "history symbol = Returned df \<Longrightarrow>
   fst (fetch_and_resample_data_st history symbol start_date interval) = [] \<or>
   (\<exists>t. fst (fetch_and_resample_data_st history symbol start_date interval) = [st_warning t])"
  by (simp add: fetch_and_resample_data_st_def try_fetch_st_def Let_def)




text \<open>
  C3. When the price source raises, the exception is caught inside
  \<open>fetch_and_resample_data\<close>: the body of the \<open>try\<close> block ends with that exception,
  and the function still returns, with the empty frame. What it reports is one error
  message (a critical dialog, an \<open>st.error\<close> element) whose text carries the text of the
  exception, and no call in which the price source returns a frame shows the same
  messages.
\<close>

theorem fetch_failed_is_reported:
  assumes "history symbol = Raised e"
  shows "try_fetch_qt history symbol start_date interval = Inl e \<and>
         try_fetch_st history symbol start_date interval = Inl e \<and>
         fetch_and_resample_data_qt history symbol start_date interval =
           ([QCritical ''Error''
               (''An error occurred while fetching '' @ symbol @ '' data: '' @ e @ [CHR 0x0A] @
                ''Please check your internet connection or try again later.'')], []) \<and>
         fetch_and_resample_data_st history symbol start_date interval =
           ([st_error (''An error occurred while fetching '' @ symbol @ '' data: '' @ e @ [CHR 0x0A] @
                       ''Please check your internet connection or try again later.'')], []) \<and>
         (\<forall>h df. h symbol = Returned df \<longrightarrow>
            fst (fetch_and_resample_data_qt h symbol start_date interval)
              \<noteq> fst (fetch_and_resample_data_qt history symbol start_date interval) \<and>
            fst (fetch_and_resample_data_st h symbol start_date interval)
              \<noteq> fst (fetch_and_resample_data_st history symbol start_date interval))"
proof (intro conjI allI impI)
  show "try_fetch_qt history symbol start_date interval = Inl e"
    using assms by (rule try_fetch_qt_raised)
  show "try_fetch_st history symbol start_date interval = Inl e"
    using assms by (rule try_fetch_st_raised)
  show "fetch_and_resample_data_qt history symbol start_date interval =
           ([QCritical ''Error''
               (''An error occurred while fetching '' @ symbol @ '' data: '' @ e @ [CHR 0x0A] @
                ''Please check your internet connection or try again later.'')], [])"
    using assms by (rule fetch_qt_raised)
  show "fetch_and_resample_data_st history symbol start_date interval =
           ([st_error (''An error occurred while fetching '' @ symbol @ '' data: '' @ e @ [CHR 0x0A] @
                       ''Please check your internet connection or try again later.'')], [])"
    using assms by (rule fetch_st_raised)
next
  fix h df assume h: "h symbol = Returned df"
  show "fst (fetch_and_resample_data_qt h symbol start_date interval)
              \<noteq> fst (fetch_and_resample_data_qt history symbol start_date interval)"
    using fetch_qt_messages_returned [of h symbol df start_date interval] h
    by (auto simp add: fetch_qt_raised [of history symbol e] assms)
  show "fst (fetch_and_resample_data_st h symbol start_date interval)
              \<noteq> fst (fetch_and_resample_data_st history symbol start_date interval)"
    using fetch_st_messages_returned [of h symbol df start_date interval] h
    by (auto simp add: fetch_st_raised [of history symbol e] assms)
qed

theorem fetch_failed_is_reported_witness:
  "fetch_and_resample_data_qt (\<lambda>s. Raised ''timeout'') ''NVDA'' 18262 ''Day'' =
     ([QCritical ''Error''
        (''An error occurred while fetching NVDA data: timeout'' @ [CHR 0x0A] @
         ''Please check your internet connection or try again later.'')], []) \<and>
   fetch_and_resample_data_st (\<lambda>s. Raised ''timeout'') ''NVDA'' 18262 ''Day'' =
     ([st_error
        (''An error occurred while fetching NVDA data: timeout'' @ [CHR 0x0A] @
         ''Please check your internet connection or try again later.'')], []) \<and>
   fst (fetch_and_resample_data_st (\<lambda>s. Returned []) ''NVDA'' 18262 ''Day'')
     \<noteq> fst (fetch_and_resample_data_st (\<lambda>s. Raised ''timeout'') ''NVDA'' 18262 ''Day'')"
proof -
  note t = fetch_failed_is_reported [where history = "\<lambda>s. Raised ''timeout''" and symbol = "''NVDA''"
      and e = "''timeout''" and start_date = 18262 and interval = "''Day''", simplified]
  from t have "\<forall>h df. h ''NVDA'' = Returned df \<longrightarrow>
      fst (fetch_and_resample_data_st h ''NVDA'' 18262 ''Day'')
        \<noteq> fst (fetch_and_resample_data_st (\<lambda>s. Raised ''timeout'') ''NVDA'' 18262 ''Day'')"
    by blast
  then have "fst (fetch_and_resample_data_st (\<lambda>s. Returned []) ''NVDA'' 18262 ''Day'')
     \<noteq> fst (fetch_and_resample_data_st (\<lambda>s. Raised ''timeout'') ''NVDA'' 18262 ''Day'')"
    by simp
  with t show ?thesis by simp
qed

section \<open>The two no-data conditions\<close>

text \<open>
  Against C2: for a symbol without any row and for a symbol whose only row lies before
  the start date, both versions return the same value, and neither call raises.
\<close>

theorem no_data_conditions_same_value_counterexample:
  "fetch_and_resample_data_qt no_history ''GOOGL'' 18262 ''Day'' =
     ([QWarning ''Data Error'' ''No data found for GOOGL. Please check the symbol or date range.''], []) \<and>
   fetch_and_resample_data_qt (no_history(''GOOGL'' := Returned [\<lparr>Date = 18261, Close = Some 1\<rparr>]))
       ''GOOGL'' 18262 ''Day'' = ([], []) \<and>
   try_fetch_qt no_history ''GOOGL'' 18262 ''Day'' =
     Inr ([QWarning ''Data Error'' ''No data found for GOOGL. Please check the symbol or date range.''], []) \<and>
   try_fetch_qt (no_history(''GOOGL'' := Returned [\<lparr>Date = 18261, Close = Some 1\<rparr>]))
       ''GOOGL'' 18262 ''Day'' = Inr ([], []) \<and>
   snd (fetch_and_resample_data_st no_history ''GOOGL'' 18262 ''Day'') =
   snd (fetch_and_resample_data_st (no_history(''GOOGL'' := Returned [\<lparr>Date = 18261, Close = Some 1\<rparr>]))
          ''GOOGL'' 18262 ''Day'') \<and>
   try_fetch_st no_history ''GOOGL'' 18262 ''Day'' =
     Inr ([st_warning ''No historical data found for GOOGL.''], []) \<and>
   snd (fetch_and_resample_data_st no_history ''GOOGL'' 18262 ''Day'') = []"
  by (simp add: fetch_and_resample_data_qt_def fetch_and_resample_data_st_def try_fetch_qt_def
      try_fetch_st_def no_history_def)

text \<open>
  C2, amended. An unknown symbol (no rows at all) and a symbol without data in range
  (rows, none on or after the start date) both give the empty frame; the two conditions
  differ in the message shown during the call only: in \<open>main.py\<close> a warning dialog
  against no dialog, in \<open>main_st_good.py\<close> two different warnings.
\<close>

theorem no_data_conditions_differ_in_message_only:
  assumes "unknown symbol = Returned []"
    and "history symbol = Returned df" and "df \<noteq> []"
    and "filter (\<lambda>r. start_date \<le> Date r) df = []"
  shows "snd (fetch_and_resample_data_qt unknown symbol start_date interval) = [] \<and>
         snd (fetch_and_resample_data_qt history symbol start_date interval) = [] \<and>
         snd (fetch_and_resample_data_st unknown symbol start_date interval) = [] \<and>
         snd (fetch_and_resample_data_st history symbol start_date interval) = [] \<and>
         fst (fetch_and_resample_data_qt unknown symbol start_date interval) =
           [QWarning ''Data Error''
              (''No data found for '' @ symbol @ ''. Please check the symbol or date range.'')] \<and>
         fst (fetch_and_resample_data_qt history symbol start_date interval) = [] \<and>
         fst (fetch_and_resample_data_st unknown symbol start_date interval) =
           [st_warning (''No historical data found for '' @ symbol @ ''.'')] \<and>
         fst (fetch_and_resample_data_st history symbol start_date interval) =
           [st_warning (''No data found for '' @ symbol @ '' from '' @ year_text start_date @
                        '' onwards. Try an earlier year.'')] \<and>
         fst (fetch_and_resample_data_st unknown symbol start_date interval)
           \<noteq> fst (fetch_and_resample_data_st history symbol start_date interval)"
  using assms
  by (simp add: fetch_qt_no_rows fetch_st_no_rows fetch_qt_none_in_range fetch_st_none_in_range)

theorem no_data_conditions_differ_in_message_only_witness:
  "snd (fetch_and_resample_data_st (\<lambda>s. Returned []) ''GOOGL'' 18262 ''Day'') = [] \<and>
   snd (fetch_and_resample_data_st (\<lambda>s. Returned [\<lparr>Date = 18261, Close = Some 1\<rparr>]) ''GOOGL'' 18262 ''Day'') = [] \<and>
   fst (fetch_and_resample_data_st (\<lambda>s. Returned []) ''GOOGL'' 18262 ''Day'')
     \<noteq> fst (fetch_and_resample_data_st (\<lambda>s. Returned [\<lparr>Date = 18261, Close = Some 1\<rparr>]) ''GOOGL'' 18262 ''Day'')"
  using no_data_conditions_differ_in_message_only [where unknown = "\<lambda>s. Returned []" and symbol = "''GOOGL''"
      and history = "\<lambda>s. Returned [\<lparr>Date = 18261, Close = Some 1\<rparr>]"
      and df = "[\<lparr>Date = 18261, Close = Some 1\<rparr>]" and start_date = 18262 and interval = "''Day''"]
  by simp

section \<open>Daily granularity\<close>

text \<open>
  C8. With the interval \<open>Day\<close>, \<open>fetch_and_resample_data\<close> returns the history
  filtered to the dates on or after the start date, not resampled: \<open>main.py\<close> returns
  that frame itself, \<open>main_st_good.py\<close> the same dates and closes with the symbol
  column added.
\<close>

theorem day_returns_filtered_series:
  assumes "history symbol = Returned df"
  shows "snd (fetch_and_resample_data_qt history symbol start_date ''Day'') =
           filter (\<lambda>r. start_date \<le> Date r) df \<and>
         snd (fetch_and_resample_data_st history symbol start_date ''Day'') =
           add_symbol symbol (filter (\<lambda>r. start_date \<le> Date r) df) \<and>
         map Date (snd (fetch_and_resample_data_st history symbol start_date ''Day'')) =
           map Date (filter (\<lambda>r. start_date \<le> Date r) df) \<and>
         map Close (snd (fetch_and_resample_data_st history symbol start_date ''Day'')) =
           map Close (filter (\<lambda>r. start_date \<le> Date r) df)"
  using assms
  by (simp add: fetch_and_resample_data_qt_def fetch_and_resample_data_st_def try_fetch_qt_def
      try_fetch_st_def Let_def add_symbol_def comp_def)

theorem day_returns_filtered_series_witness:
  "snd (fetch_and_resample_data_qt
          (\<lambda>s. Returned [\<lparr>Date = 18260, Close = Some 1\<rparr>, \<lparr>Date = 18261, Close = Some 2\<rparr>,
                          \<lparr>Date = 18264, Close = Some 3\<rparr>]) ''GOOGL'' 18261 ''Day'') =
     [\<lparr>Date = 18261, Close = Some 2\<rparr>, \<lparr>Date = 18264, Close = Some 3\<rparr>] \<and>
   snd (fetch_and_resample_data_st
          (\<lambda>s. Returned [\<lparr>Date = 18260, Close = Some 1\<rparr>, \<lparr>Date = 18261, Close = Some 2\<rparr>,
                          \<lparr>Date = 18264, Close = Some 3\<rparr>]) ''GOOGL'' 18261 ''Day'') =
     [\<lparr>Date = 18261, Close = Some 2, Symbol = ''GOOGL''\<rparr>, \<lparr>Date = 18264, Close = Some 3, Symbol = ''GOOGL''\<rparr>]"
  using day_returns_filtered_series [where history = "\<lambda>s. Returned [\<lparr>Date = 18260, Close = Some 1\<rparr>,
      \<lparr>Date = 18261, Close = Some 2\<rparr>, \<lparr>Date = 18264, Close = Some 3\<rparr>]" and symbol = "''GOOGL''"
      and df = "[\<lparr>Date = 18260, Close = Some 1\<rparr>, \<lparr>Date = 18261, Close = Some 2\<rparr>, \<lparr>Date = 18264, Close = Some 3\<rparr>]"
      and start_date = 18261]
  by (simp add: add_symbol_def)

section \<open>Determinism\<close>



section \<open>Combining the symbols\<close>

lemma combine_append: "combine g n t = g @ n @ t"
  by (simp add: combine_def concat_if_not_empty_def)

lemma fetch_st_tagged:
  "r \<in> set (snd (fetch_and_resample_data_st history symbol start_date interval)) \<Longrightarrow> Symbol r = symbol"
  by (auto simp add: fetch_and_resample_data_st_def try_fetch_st_def add_symbol_def Let_def
      split: history_result.splits if_splits)

lemma filter_all_tagged:
  "\<forall>r\<in>set df. Symbol r = s \<Longrightarrow> filter (\<lambda>r. Symbol r = s) df = df"
  by (induction df) auto

lemma filter_none_tagged:
  "\<forall>r\<in>set df. Symbol r = s \<Longrightarrow> s \<noteq> s' \<Longrightarrow> filter (\<lambda>r. Symbol r = s') df = []"
  by (induction df) auto

text \<open>
  Against C5: the combined frame of two GOOGL points and one NVDA point, the NVDA point
  dated as the first GOOGL point, keeps the NVDA point last; it is not sorted by date then
  symbol.
\<close>

theorem combine_not_sorted_counterexample:
  "combine [\<lparr>Date = 18260, Close = Some 1, Symbol = ''GOOGL''\<rparr>,
            \<lparr>Date = 18261, Close = Some 2, Symbol = ''GOOGL''\<rparr>]
           [\<lparr>Date = 18260, Close = Some 7, Symbol = ''NVDA''\<rparr>] [] =
     [\<lparr>Date = 18260, Close = Some 1, Symbol = ''GOOGL''\<rparr>,
      \<lparr>Date = 18261, Close = Some 2, Symbol = ''GOOGL''\<rparr>,
      \<lparr>Date = 18260, Close = Some 7, Symbol = ''NVDA''\<rparr>] \<and>
   \<not> sorted_by_date_then_symbol
       (combine [\<lparr>Date = 18260, Close = Some 1, Symbol = ''GOOGL''\<rparr>,
                 \<lparr>Date = 18261, Close = Some 2, Symbol = ''GOOGL''\<rparr>]
                [\<lparr>Date = 18260, Close = Some 7, Symbol = ''NVDA''\<rparr>] [])"
  by (simp add: combine_def concat_if_not_empty_def sorted_by_date_then_symbol_def)

text \<open>
  C5, amended. The combination step appends the frames of GOOGL, NVDA and TSLA in this
  order: the combined frame holds exactly the points of the three frames (as a multiset,
  and in number: 200 and 180 points give 380), every point of a fetched frame carries the
  symbol it was fetched for, and the points of one symbol in the combined frame are that
  symbol's frame, in its order, so no point is made up across symbols. The combined frame
  is grouped by symbol and not sorted by date.
\<close>

theorem combine_is_concatenation:
  "combine df_googl df_nvda df_tsla = df_googl @ df_nvda @ df_tsla \<and>
   mset (combine df_googl df_nvda df_tsla) = mset df_googl + mset df_nvda + mset df_tsla \<and>
   length (combine df_googl df_nvda df_tsla) = length df_googl + length df_nvda + length df_tsla \<and>
   (length df_googl = 200 \<and> length df_nvda = 180 \<and> df_tsla = [] \<longrightarrow>
      length (combine df_googl df_nvda df_tsla) = 380) \<and>
   ((\<forall>r\<in>set df_googl. Symbol r = ''GOOGL'') \<and> (\<forall>r\<in>set df_nvda. Symbol r = ''NVDA'') \<and>
    (\<forall>r\<in>set df_tsla. Symbol r = ''TSLA'') \<longrightarrow>
      filter (\<lambda>r. Symbol r = ''GOOGL'') (combine df_googl df_nvda df_tsla) = df_googl \<and>
      filter (\<lambda>r. Symbol r = ''NVDA'') (combine df_googl df_nvda df_tsla) = df_nvda \<and>
      filter (\<lambda>r. Symbol r = ''TSLA'') (combine df_googl df_nvda df_tsla) = df_tsla) \<and>
   (\<forall>r\<in>set (snd (fetch_and_resample_data_st history symbol start_date interval)). Symbol r = symbol)"
proof (intro conjI impI)
  show "combine df_googl df_nvda df_tsla = df_googl @ df_nvda @ df_tsla"
    by (rule combine_append)
  show "mset (combine df_googl df_nvda df_tsla) = mset df_googl + mset df_nvda + mset df_tsla"
    by (simp add: combine_append)
  show "length (combine df_googl df_nvda df_tsla) = length df_googl + length df_nvda + length df_tsla"
    by (simp add: combine_append)
  show "\<forall>r\<in>set (snd (fetch_and_resample_data_st history symbol start_date interval)). Symbol r = symbol"
    using fetch_st_tagged by blast
next
  assume "length df_googl = 200 \<and> length df_nvda = 180 \<and> df_tsla = []"
  then show "length (combine df_googl df_nvda df_tsla) = 380"
    by (simp add: combine_append)
next
  assume tags: "(\<forall>r\<in>set df_googl. Symbol r = ''GOOGL'') \<and> (\<forall>r\<in>set df_nvda. Symbol r = ''NVDA'') \<and>
    (\<forall>r\<in>set df_tsla. Symbol r = ''TSLA'')"
  have g: "filter (\<lambda>r. Symbol r = ''GOOGL'') df_googl = df_googl"
    "filter (\<lambda>r. Symbol r = ''NVDA'') df_googl = []" "filter (\<lambda>r. Symbol r = ''TSLA'') df_googl = []"
    using tags by (simp_all add: filter_all_tagged filter_none_tagged [where s = "''GOOGL''"])
  have n: "filter (\<lambda>r. Symbol r = ''NVDA'') df_nvda = df_nvda"
    "filter (\<lambda>r. Symbol r = ''GOOGL'') df_nvda = []" "filter (\<lambda>r. Symbol r = ''TSLA'') df_nvda = []"
    using tags by (simp_all add: filter_all_tagged filter_none_tagged [where s = "''NVDA''"])
  have t: "filter (\<lambda>r. Symbol r = ''TSLA'') df_tsla = df_tsla"
    "filter (\<lambda>r. Symbol r = ''GOOGL'') df_tsla = []" "filter (\<lambda>r. Symbol r = ''NVDA'') df_tsla = []"
    using tags by (simp_all add: filter_all_tagged filter_none_tagged [where s = "''TSLA''"])
  show "filter (\<lambda>r. Symbol r = ''GOOGL'') (combine df_googl df_nvda df_tsla) = df_googl"
    by (simp add: combine_append g n t)
  show "filter (\<lambda>r. Symbol r = ''NVDA'') (combine df_googl df_nvda df_tsla) = df_nvda"
    by (simp add: combine_append g n t)
  show "filter (\<lambda>r. Symbol r = ''TSLA'') (combine df_googl df_nvda df_tsla) = df_tsla"
    by (simp add: combine_append g n t)
qed

theorem combine_is_concatenation_witness:
  "length (combine (replicate 200 \<lparr>Date = 18260, Close = Some 1, Symbol = ''GOOGL''\<rparr>)
                   (replicate 180 \<lparr>Date = 18260, Close = Some 7, Symbol = ''NVDA''\<rparr>) []) = 380 \<and>
   filter (\<lambda>r. Symbol r = ''NVDA'')
     (combine (replicate 200 \<lparr>Date = 18260, Close = Some 1, Symbol = ''GOOGL''\<rparr>)
              (replicate 180 \<lparr>Date = 18260, Close = Some 7, Symbol = ''NVDA''\<rparr>) []) =
     replicate 180 \<lparr>Date = 18260, Close = Some 7, Symbol = ''NVDA''\<rparr> \<and>
   map Symbol (snd (fetch_and_resample_data_st
                      (no_history(''NVDA'' := Returned [\<lparr>Date = 18260, Close = Some 7\<rparr>]))
                      ''NVDA'' 17897 ''Day'')) = [''NVDA''] \<and>
   snd (fetch_and_resample_data_st (no_history(''NVDA'' := Returned [\<lparr>Date = 18260, Close = Some 7\<rparr>]))
          ''NVDA'' 17897 ''Day'') = [\<lparr>Date = 18260, Close = Some 7, Symbol = ''NVDA''\<rparr>]"
proof -
  note t = combine_is_concatenation [where df_googl = "replicate 200 \<lparr>Date = 18260, Close = Some 1, Symbol = ''GOOGL''\<rparr>"
      and df_nvda = "replicate 180 \<lparr>Date = 18260, Close = Some 7, Symbol = ''NVDA''\<rparr>" and df_tsla = "[]"
      and history = "no_history(''NVDA'' := Returned [\<lparr>Date = 18260, Close = Some 7\<rparr>])"
      and symbol = "''NVDA''" and start_date = 17897 and interval = "''Day''"]
  have e: "snd (fetch_and_resample_data_st (no_history(''NVDA'' := Returned [\<lparr>Date = 18260, Close = Some 7\<rparr>]))
          ''NVDA'' 17897 ''Day'') = [\<lparr>Date = 18260, Close = Some 7, Symbol = ''NVDA''\<rparr>]"
    by (simp add: fetch_and_resample_data_st_def try_fetch_st_def add_symbol_def)
  from t e show ?thesis by simp
qed

section \<open>The end date\<close>

lemma filter_by_end_date_filter:
  "filter_by_end_date s e df = filter (\<lambda>r. s \<le> Date r \<and> Date r \<le> e) df"
  by (simp add: filter_by_end_date_def)

lemma fetch_st_day:
  "history symbol = Returned df \<Longrightarrow>
   snd (fetch_and_resample_data_st history symbol start_date ''Day'') =
     add_symbol symbol (filter (\<lambda>r. start_date \<le> Date r) df)"
  by (simp add: fetch_and_resample_data_st_def try_fetch_st_def Let_def add_symbol_def)

lemma filter_add_symbol:
  "filter (\<lambda>r. P (Date r)) (add_symbol s df) = add_symbol s (filter (\<lambda>r. P (Date r)) df)"
  by (induction df) (simp_all add: add_symbol_def)

text \<open>
  Against C4: GOOGL has rows on Monday 2019-12-30, Tuesday 2019-12-31 and Thursday
  2020-01-02, and the year range is 2019 to 2019. The script resamples all three rows into
  the week labelled Sunday 2020-01-05 and then drops that point, whose label is after the
  end date: the combined frame is empty. Resampling the rows restricted to the range
  gives one point, the close of 2019-12-31.
\<close>

theorem end_filter_after_resampling_counterexample:
  "combined_df (no_history(''GOOGL'' := Returned [\<lparr>Date = 18260, Close = Some 1\<rparr>,
                   \<lparr>Date = 18261, Close = Some 2\<rparr>, \<lparr>Date = 18263, Close = Some 3\<rparr>]))
               2019 2019 ''Week'' = [] \<and>
   days_from_civil 2019 1 1 = 17897 \<and> days_from_civil 2019 12 31 = 18261 \<and>
   add_symbol ''GOOGL''
     (spec_fetch_range W 17897 18261
        [\<lparr>Date = 18260, Close = Some 1\<rparr>, \<lparr>Date = 18261, Close = Some 2\<rparr>, \<lparr>Date = 18263, Close = Some 3\<rparr>]) =
     [\<lparr>Date = 18266, Close = Some 2, Symbol = ''GOOGL''\<rparr>] \<and>
   snd (fetch_and_resample_data_st (no_history(''GOOGL'' := Returned [\<lparr>Date = 18260, Close = Some 1\<rparr>,
                   \<lparr>Date = 18261, Close = Some 2\<rparr>, \<lparr>Date = 18263, Close = Some 3\<rparr>]))
          ''GOOGL'' 17897 ''Week'') = [\<lparr>Date = 18266, Close = Some 3, Symbol = ''GOOGL''\<rparr>]"
  by (simp add: combined_df_def fetch_and_resample_data_st_def try_fetch_st_def no_history_def
      days_from_civil_def combine_def concat_if_not_empty_def filter_by_end_date_def add_symbol_def
      resample_last_def bin_labels_def last_valid_def spec_fetch_range_def Let_def)

text \<open>
  C4, amended. \<open>fetch_and_resample_data\<close> takes no end date. The script applies the
  end bound after resampling and combining, to the dates of the combined rows (which,
  for an interval other than \<open>Day\<close>, are the labels of the bins): a row is kept when
  its date lies between January 1 of the first year and December 31 of the last. With the
  interval \<open>Day\<close> the combined frame is the history of each symbol restricted to
  that range.
\<close>

theorem end_bound_on_combined_rows:
  "combined_df history start_year end_year interval =
     filter (\<lambda>r. days_from_civil start_year 1 1 \<le> Date r \<and> Date r \<le> days_from_civil end_year 12 31)
       (snd (fetch_and_resample_data_st history ''GOOGL'' (days_from_civil start_year 1 1) interval) @
        snd (fetch_and_resample_data_st history ''NVDA'' (days_from_civil start_year 1 1) interval) @
        snd (fetch_and_resample_data_st history ''TSLA'' (days_from_civil start_year 1 1) interval)) \<and>
   (history ''GOOGL'' = Returned dg \<and> history ''NVDA'' = Returned dn \<and> history ''TSLA'' = Returned dt \<longrightarrow>
      combined_df history start_year end_year ''Day'' =
        add_symbol ''GOOGL''
          (filter (\<lambda>r. days_from_civil start_year 1 1 \<le> Date r \<and> Date r \<le> days_from_civil end_year 12 31) dg) @
        add_symbol ''NVDA''
          (filter (\<lambda>r. days_from_civil start_year 1 1 \<le> Date r \<and> Date r \<le> days_from_civil end_year 12 31) dn) @
        add_symbol ''TSLA''
          (filter (\<lambda>r. days_from_civil start_year 1 1 \<le> Date r \<and> Date r \<le> days_from_civil end_year 12 31) dt))"
proof (intro conjI impI)
  show "combined_df history start_year end_year interval =
     filter (\<lambda>r. days_from_civil start_year 1 1 \<le> Date r \<and> Date r \<le> days_from_civil end_year 12 31)
       (snd (fetch_and_resample_data_st history ''GOOGL'' (days_from_civil start_year 1 1) interval) @
        snd (fetch_and_resample_data_st history ''NVDA'' (days_from_civil start_year 1 1) interval) @
        snd (fetch_and_resample_data_st history ''TSLA'' (days_from_civil start_year 1 1) interval))"
    by (simp add: combined_df_def Let_def combine_append filter_by_end_date_filter)
next
  assume h: "history ''GOOGL'' = Returned dg \<and> history ''NVDA'' = Returned dn \<and> history ''TSLA'' = Returned dt"
  define s where "s = days_from_civil start_year 1 1"
  define e where "e = days_from_civil end_year 12 31"
  have in_range: "\<And>df sym. filter (\<lambda>r. s \<le> Date r \<and> Date r \<le> e) (add_symbol sym (filter (\<lambda>r. s \<le> Date r) df))
      = add_symbol sym (filter (\<lambda>r. s \<le> Date r \<and> Date r \<le> e) df)"
  proof -
    fix df :: "row list" and sym
    have "filter (\<lambda>r. s \<le> Date r \<and> Date r \<le> e) (add_symbol sym (filter (\<lambda>r. s \<le> Date r) df))
        = add_symbol sym (filter (\<lambda>r. s \<le> Date r \<and> Date r \<le> e) (filter (\<lambda>r. s \<le> Date r) df))"
      by (rule filter_add_symbol [where P = "\<lambda>d. s \<le> d \<and> d \<le> e"])
    also have "filter (\<lambda>r. s \<le> Date r \<and> Date r \<le> e) (filter (\<lambda>r. s \<le> Date r) df)
        = filter (\<lambda>r. s \<le> Date r \<and> Date r \<le> e) df"
      by (simp add: conj_commute cong: conj_cong)
    finally show "filter (\<lambda>r. s \<le> Date r \<and> Date r \<le> e) (add_symbol sym (filter (\<lambda>r. s \<le> Date r) df))
      = add_symbol sym (filter (\<lambda>r. s \<le> Date r \<and> Date r \<le> e) df)" .
  qed
  have "combined_df history start_year end_year ''Day'' =
      filter (\<lambda>r. s \<le> Date r \<and> Date r \<le> e)
        (add_symbol ''GOOGL'' (filter (\<lambda>r. s \<le> Date r) dg) @
         add_symbol ''NVDA'' (filter (\<lambda>r. s \<le> Date r) dn) @
         add_symbol ''TSLA'' (filter (\<lambda>r. s \<le> Date r) dt))"
    using h
    by (simp add: combined_df_def Let_def combine_append filter_by_end_date_filter
        fetch_st_day [where history = history] s_def e_def)
  then show "combined_df history start_year end_year ''Day'' =
        add_symbol ''GOOGL''
          (filter (\<lambda>r. days_from_civil start_year 1 1 \<le> Date r \<and> Date r \<le> days_from_civil end_year 12 31) dg) @
        add_symbol ''NVDA''
          (filter (\<lambda>r. days_from_civil start_year 1 1 \<le> Date r \<and> Date r \<le> days_from_civil end_year 12 31) dn) @
        add_symbol ''TSLA''
          (filter (\<lambda>r. days_from_civil start_year 1 1 \<le> Date r \<and> Date r \<le> days_from_civil end_year 12 31) dt)"
    by (simp add: in_range s_def [symmetric] e_def [symmetric])
qed

theorem end_bound_on_combined_rows_witness:
  "combined_df (no_history(''GOOGL'' := Returned [\<lparr>Date = 18260, Close = Some 1\<rparr>,
                   \<lparr>Date = 18261, Close = Some 2\<rparr>, \<lparr>Date = 18263, Close = Some 3\<rparr>]))
               2019 2019 ''Day'' =
     [\<lparr>Date = 18260, Close = Some 1, Symbol = ''GOOGL''\<rparr>, \<lparr>Date = 18261, Close = Some 2, Symbol = ''GOOGL''\<rparr>]"
  using end_bound_on_combined_rows [where history = "no_history(''GOOGL'' := Returned [\<lparr>Date = 18260, Close = Some 1\<rparr>,
                   \<lparr>Date = 18261, Close = Some 2\<rparr>, \<lparr>Date = 18263, Close = Some 3\<rparr>])"
      and start_year = 2019 and end_year = 2019 and interval = "''Day''"
      and dg = "[\<lparr>Date = 18260, Close = Some 1\<rparr>, \<lparr>Date = 18261, Close = Some 2\<rparr>, \<lparr>Date = 18263, Close = Some 3\<rparr>]"
      and dn = "[]" and dt = "[]", THEN conjunct2]
  by (simp add: no_history_def add_symbol_def days_from_civil_def)

section \<open>The moving average\<close>







text \<open>A window of three on a series with a gap.\<close>

lemma rolling_mean_example:
  "rolling_mean 3 [Some 1, Some 2, Some 3, Some 4, None, Some 6, Some 7, Some 8] =
     [None, None, Some 2, Some 3, None, None, None, Some 7]"
  by (simp add: rolling_mean_def upt_rec)















section \<open>The resampled series\<close>

lemma last_valid_Nil: "filter (\<lambda>v. v \<noteq> None) vs = [] \<Longrightarrow> last_valid vs = None"
  by (simp add: last_valid_def)

lemma last_valid_single: "last_valid [v] = v"
  by (cases v) (simp_all add: last_valid_def)


lemma bin_labels_fixed: "l \<in> set (bin_labels f lo hi) \<Longrightarrow> bin_label f l = l"
  by (simp add: bin_labels_def)

lemma bin_labels_strict_sorted: "sorted_wrt (<) (bin_labels f lo hi)"
  unfolding bin_labels_def by (rule sorted_wrt_filter) simp

lemma bin_labels_distinct: "distinct (bin_labels f lo hi)"
  using bin_labels_strict_sorted [of f lo hi] by (simp add: strict_sorted_iff)

lemma resample_last_empty: "sort_key Date df = [] \<Longrightarrow> resample_last f df = []"
  by (simp add: resample_last_def)

lemma resample_last_nonempty:
  "sort_key Date df \<noteq> [] \<Longrightarrow>
   resample_last f df =
     map (\<lambda>l. \<lparr>Date = l,
               Close = last_valid (map Close (filter (\<lambda>x. bin_label f (Date x) = l) (sort_key Date df)))\<rparr>)
         (bin_labels f (Date (hd (sort_key Date df))) (Date (last (sort_key Date df))))"
  by (cases "sort_key Date df") (simp_all add: resample_last_def)

lemma sort_key_Nil_iff: "sort_key f xs = [] \<longleftrightarrow> xs = []"
  by (metis length_sort length_0_conv)

lemma resample_last_dates:
  "df \<noteq> [] \<Longrightarrow>
   map Date (resample_last f df) =
     bin_labels f (Date (hd (sort_key Date df))) (Date (last (sort_key Date df)))"
  by (simp add: resample_last_nonempty sort_key_Nil_iff comp_def)













section \<open>Resampling twice\<close>

lemma week_label_idem: "bin_label W (bin_label W d) = bin_label W d"
  by (simp; presburger)

lemma week_label_mono: "a \<le> b \<Longrightarrow> bin_label W a \<le> bin_label W b"
  by (simp; presburger)

lemma week_label_ge: "d \<le> bin_label W d"
  by simp

lemma hd_filter_upto: "P lo \<Longrightarrow> lo \<le> hi \<Longrightarrow> hd (filter P [lo..hi]) = lo"
  by (simp add: upto_rec1)

lemma last_filter_upto: "P hi \<Longrightarrow> lo \<le> hi \<Longrightarrow> last (filter P [lo..hi]) = hi"
  by (simp add: upto_rec2)

lemma filter_eq_single: "distinct xs \<Longrightarrow> l \<in> set xs \<Longrightarrow> filter (\<lambda>x. x = l) xs = [l]"
  by (induction xs) (auto simp add: filter_empty_conv)

lemma sorted_hd_le_last:
  assumes "sorted (map f xs)" and "xs \<noteq> []"
  shows "f (hd xs) \<le> f (last xs)"
proof (cases xs)
  case Nil
  with assms(2) show ?thesis by simp
next
  case (Cons x ys)
  show ?thesis
  proof (cases "ys = []")
    case True
    with Cons show ?thesis by simp
  next
    case False
    then have "last (x # ys) \<in> set ys" by simp
    with assms(1) Cons show ?thesis by auto
  qed
qed

lemma resample_last_idem:
  assumes idem: "\<And>d. bin_label f (bin_label f d) = bin_label f d"
    and mono: "\<And>a b. a \<le> b \<Longrightarrow> bin_label f a \<le> bin_label f b"
  shows "resample_last f (resample_last f df) = resample_last f df"
proof (cases "df = []")
  case True
  then show ?thesis by (simp add: resample_last_def)
next
  case False
  define s where "s = sort_key Date df"
  define lo where "lo = bin_label f (Date (hd s))"
  define hi where "hi = bin_label f (Date (last s))"
  define L where "L = bin_labels f (Date (hd s)) (Date (last s))"
  define c where "c = (\<lambda>l. last_valid (map Close (filter (\<lambda>x. bin_label f (Date x) = l) s)))"
  define out where "out = resample_last f df"
  have s_ne: "s \<noteq> []" using False by (simp add: s_def sort_key_Nil_iff)
  have out_eq: "out = map (\<lambda>l. \<lparr>Date = l, Close = c l\<rparr>) L"
    unfolding out_def L_def c_def s_def
    using s_ne [unfolded s_def] by (rule resample_last_nonempty)
  have dates: "map Date out = L" by (simp add: out_eq comp_def)
  have L_eq: "L = filter (\<lambda>d. bin_label f d = d) [lo..hi]"
    by (simp add: L_def bin_labels_def lo_def hi_def)
  have "sorted (map Date s)" by (simp add: s_def)
  then have "Date (hd s) \<le> Date (last s)" using s_ne by (rule sorted_hd_le_last)
  then have le: "lo \<le> hi" unfolding lo_def hi_def by (rule mono)
  have fix_lo: "bin_label f lo = lo" and fix_hi: "bin_label f hi = hi"
    by (simp_all add: lo_def hi_def idem)
  have L_ne: "L \<noteq> []"
    using le fix_lo by (simp add: L_eq upto_rec1)
  have hd_L: "hd L = lo" unfolding L_eq using fix_lo le by (rule hd_filter_upto)
  have last_L: "last L = hi" unfolding L_eq using fix_hi le by (rule last_filter_upto)
  have dist: "distinct L" by (simp add: L_def bin_labels_distinct)
  have fixed: "bin_label f l = l" if "l \<in> set L" for l
    using that unfolding L_def by (rule bin_labels_fixed)
  have out_ne: "out \<noteq> []" using L_ne by (simp add: out_eq)
  have "sorted_wrt (<) (map Date out)" unfolding dates L_def by (rule bin_labels_strict_sorted)
  then have "sorted (map Date out)" by (simp add: strict_sorted_iff)
  then have sorted_out: "sort_key Date out = out" by (rule sort_key_id_if_sorted)
  have hd_out: "Date (hd out) = lo"
    using out_ne hd_L dates by (metis hd_map map_is_Nil_conv)
  have last_out: "Date (last out) = hi"
    using out_ne last_L dates by (metis last_map map_is_Nil_conv)
  have labels: "bin_labels f (Date (hd out)) (Date (last out)) = L"
    by (simp add: bin_labels_def hd_out last_out fix_lo fix_hi L_eq)
  have group: "filter (\<lambda>x. bin_label f (Date x) = l) out = [\<lparr>Date = l, Close = c l\<rparr>]"
    if l: "l \<in> set L" for l
  proof -
    have "filter (\<lambda>x. bin_label f (Date x) = l) out =
        map (\<lambda>l. \<lparr>Date = l, Close = c l\<rparr>) (filter (\<lambda>l'. bin_label f l' = l) L)"
      by (simp add: out_eq filter_map comp_def)
    also have "filter (\<lambda>l'. bin_label f l' = l) L = filter (\<lambda>l'. l' = l) L"
      by (rule filter_cong) (simp_all add: fixed)
    also have "\<dots> = [l]" using dist l by (rule filter_eq_single)
    finally show ?thesis by simp
  qed
  have "resample_last f out =
      map (\<lambda>l. \<lparr>Date = l,
                Close = last_valid (map Close (filter (\<lambda>x. bin_label f (Date x) = l) out))\<rparr>) L"
    using resample_last_nonempty [of out f] out_ne
    by (simp add: sorted_out labels)
  also have "\<dots> = map (\<lambda>l. \<lparr>Date = l, Close = c l\<rparr>) L"
    by (rule map_cong) (simp_all add: group last_valid_single)
  finally show ?thesis by (simp add: out_eq [symmetric] out_def [symmetric])
qed


lemma resample_last_dates_ge:
  assumes ge: "\<And>d. d \<le> bin_label f d" and p: "p \<in> set (resample_last f df)"
  shows "Date (hd (sort_key Date df)) \<le> Date p"
proof -
  have ne: "df \<noteq> []" using p by (auto simp add: resample_last_def)
  have "Date p \<in> set (map Date (resample_last f df))" using p by simp
  then have "Date p \<in> set (bin_labels f (Date (hd (sort_key Date df))) (Date (last (sort_key Date df))))"
    by (simp only: resample_last_dates [OF ne])
  then have "bin_label f (Date (hd (sort_key Date df))) \<le> Date p"
    by (simp add: bin_labels_def)
  with ge [of "Date (hd (sort_key Date df))"] show ?thesis by simp
qed

lemma fetch_qt_week_cases:
  "snd (fetch_and_resample_data_qt history symbol start_date ''Week'') = [] \<or>
   (\<exists>df :: row list. filter (\<lambda>r. start_date \<le> Date r) df \<noteq> [] \<and>
      snd (fetch_and_resample_data_qt history symbol start_date ''Week'') =
        resample_last W (filter (\<lambda>r. start_date \<le> Date r) df))"
  by (cases "history symbol")
     (auto simp add: fetch_and_resample_data_qt_def try_fetch_qt_def Let_def)

text \<open>
  C7. Weekly resampling of a weekly resampled series gives the same series; and when the
  weekly series that \<open>fetch_and_resample_data\<close> returned is what the price source
  holds for the symbol, fetching it again with the interval \<open>Week\<close> returns it
  unchanged.
\<close>

theorem weekly_resampling_idempotent:
  "resample_last W (resample_last W df) = resample_last W df \<and>
   snd (fetch_and_resample_data_qt
          (history(symbol := Returned (snd (fetch_and_resample_data_qt history symbol start_date ''Week''))))
          symbol start_date ''Week'') =
     snd (fetch_and_resample_data_qt history symbol start_date ''Week'')"
proof
  show idem: "resample_last W (resample_last W df) = resample_last W df" for df :: "'b row_scheme list"
    using week_label_idem week_label_mono by (rule resample_last_idem)
  define out where "out = snd (fetch_and_resample_data_qt history symbol start_date ''Week'')"
  have "snd (fetch_and_resample_data_qt (history(symbol := Returned out)) symbol start_date ''Week'') = out"
  proof (cases "out = []")
    case True
    then show ?thesis
      by (simp add: fetch_and_resample_data_qt_def try_fetch_qt_def)
  next
    case False
    then obtain d :: "row list" where d: "filter (\<lambda>r. start_date \<le> Date r) d \<noteq> []"
      and o: "out = resample_last W (filter (\<lambda>r. start_date \<le> Date r) d)"
      using fetch_qt_week_cases [of history symbol start_date] unfolding out_def by blast
    let ?fd = "filter (\<lambda>r. start_date \<le> Date r) d"
    have "hd (sort_key Date ?fd) \<in> set (sort_key Date ?fd)"
      using d by (simp add: sort_key_Nil_iff del: set_sort)
    then have "hd (sort_key Date ?fd) \<in> set ?fd" by (simp only: set_sort)
    then have first: "start_date \<le> Date (hd (sort_key Date ?fd))" by simp
    have "start_date \<le> Date p" if "p \<in> set out" for p
      using resample_last_dates_ge [OF week_label_ge, of p ?fd] that first unfolding o by simp
    then have keep: "filter (\<lambda>r. start_date \<le> Date r) out = out"
      by (intro filter_True) blast
    have "snd (fetch_and_resample_data_qt (history(symbol := Returned out)) symbol start_date ''Week'')
        = resample_last W out"
      using False by (simp add: fetch_and_resample_data_qt_def try_fetch_qt_def Let_def keep)
    also have "\<dots> = out" unfolding o by (rule idem)
    finally show ?thesis .
  qed
  then show "snd (fetch_and_resample_data_qt
          (history(symbol := Returned (snd (fetch_and_resample_data_qt history symbol start_date ''Week''))))
          symbol start_date ''Week'') =
     snd (fetch_and_resample_data_qt history symbol start_date ''Week'')"
    by (simp only: out_def)
qed

text \<open>A weekly series with a gap, resampled again.\<close>

lemma weekly_resampling_example:
  "resample_last W [\<lparr>Date = 18266, Close = Some 2\<rparr>, \<lparr>Date = 18273, Close = None\<rparr>,
                    \<lparr>Date = 18280, Close = Some 5\<rparr>] =
     [\<lparr>Date = 18266, Close = Some 2\<rparr>, \<lparr>Date = 18273, Close = None\<rparr>, \<lparr>Date = 18280, Close = Some 5\<rparr>]"
  by (simp add: resample_last_def bin_labels_def last_valid_def)

end
